theory Spec2Isabelle
  imports Main "HOL-Library.Word" "HOL-Library.AList"
begin

section \<open>Chain parameters (chainparams.go)\<close>

text \<open>
  \<^verbatim>\<open>bitcoinWire.BitcoinNet\<close> and \<^verbatim>\<open>monacoinWire.BitcoinNet\<close> are both \<^verbatim>\<open>uint32\<close>;
  a \<^verbatim>\<open>chainhash.Hash\<close> is a \<^verbatim>\<open>[32]byte\<close>.
\<close>

type_synonym byte = "8 word"
type_synonym BitcoinNet = "32 word"
type_synonym MonacoinNet = "32 word"
type_synonym Hash = "256 word"

record Checkpoint =
  cp_Height :: "32 word"
  cp_Hash :: Hash

text \<open>
  The fields of \<^verbatim>\<open>chaincfg.Params\<close> that chainparams.go reads or writes. The btcd and
  monad packages declare the same fields; only the type of \<^verbatim>\<open>Net\<close> differs by name.
\<close>

record chaincfg_Params =
  Name :: string
  Net :: "32 word"
  DefaultPort :: string
  CoinbaseMaturity :: "16 word"
  GenesisHash :: Hash
  PubKeyHashAddrID :: byte
  ScriptHashAddrID :: byte
  PrivateKeyID :: byte
  WitnessPubKeyHashAddrID :: byte
  WitnessScriptHashAddrID :: byte
  Bech32HRPSegwit :: string
  HDPrivateKeyID :: "32 word"
  HDPublicKeyID :: "32 word"
  HDCoinType :: "32 word"
  Checkpoints :: "Checkpoint list"

record bitcoinNetParams =
  Params :: chaincfg_Params
  rpcPort :: string
  CoinType :: "32 word"

record monacoinNetParams =
  mParams :: chaincfg_Params
  mrpcPort :: string
  mCoinType :: "32 word"

text \<open>
  What chainparams.go imports from other packages: the network magics of the two wire
  packages, the parameter tables of the two chaincfg packages and the coin types of
  keychain. They are not part of the file, so every definition below takes them as a
  parameter.
\<close>

record imported =
  bitcoinWire_MainNet :: BitcoinNet
  bitcoinWire_TestNet :: BitcoinNet
  bitcoinWire_TestNet3 :: BitcoinNet
  bitcoinWire_SimNet :: BitcoinNet
  monacoinWire_MainNet :: MonacoinNet
  monacoinWire_TestNet4 :: MonacoinNet
  bitcoinCfg_MainNetParams :: chaincfg_Params
  bitcoinCfg_TestNet3Params :: chaincfg_Params
  bitcoinCfg_SimNetParams :: chaincfg_Params
  bitcoinCfg_RegressionNetParams :: chaincfg_Params
  monacoinCfg_MainNetParams :: chaincfg_Params
  monacoinCfg_TestNet4Params :: chaincfg_Params
  keychain_CoinTypeBitcoin :: "32 word"
  keychain_CoinTypeTestnet :: "32 word"
  keychain_CoinTypeMonacoin :: "32 word"

text \<open>The conversion \<^verbatim>\<open>bitcoinWire.BitcoinNet(x)\<close> of a \<^verbatim>\<open>uint32\<close> to a \<^verbatim>\<open>uint32\<close>.\<close>

definition bitcoinWire_BitcoinNet :: "MonacoinNet \<Rightarrow> BitcoinNet" where
  "bitcoinWire_BitcoinNet n = n"

definition bitcoinTestNetParams :: "imported \<Rightarrow> bitcoinNetParams" where
  "bitcoinTestNetParams E =
     \<lparr>Params = bitcoinCfg_TestNet3Params E, rpcPort = ''18334'',
      CoinType = keychain_CoinTypeTestnet E\<rparr>"

definition bitcoinMainNetParams :: "imported \<Rightarrow> bitcoinNetParams" where
  "bitcoinMainNetParams E =
     \<lparr>Params = bitcoinCfg_MainNetParams E, rpcPort = ''8334'',
      CoinType = keychain_CoinTypeBitcoin E\<rparr>"

definition bitcoinSimNetParams :: "imported \<Rightarrow> bitcoinNetParams" where
  "bitcoinSimNetParams E =
     \<lparr>Params = bitcoinCfg_SimNetParams E, rpcPort = ''18556'',
      CoinType = keychain_CoinTypeTestnet E\<rparr>"

definition monacoinTestNetParams :: "imported \<Rightarrow> monacoinNetParams" where
  "monacoinTestNetParams E =
     \<lparr>mParams = monacoinCfg_TestNet4Params E, mrpcPort = ''19400'',
      mCoinType = keychain_CoinTypeTestnet E\<rparr>"

definition monacoinMainNetParams :: "imported \<Rightarrow> monacoinNetParams" where
  "monacoinMainNetParams E =
     \<lparr>mParams = monacoinCfg_MainNetParams E, mrpcPort = ''9400'',
      mCoinType = keychain_CoinTypeMonacoin E\<rparr>"

definition regTestNetParams :: "imported \<Rightarrow> bitcoinNetParams" where
  "regTestNetParams E =
     \<lparr>Params = bitcoinCfg_RegressionNetParams E, rpcPort = ''18334'',
      CoinType = keychain_CoinTypeTestnet E\<rparr>"

text \<open>
  \<^verbatim>\<open>applyMonacoinParams\<close> overwrites the fields of \<^verbatim>\<open>*params\<close> (and of the table it
  points to) one by one; the model returns the value \<^verbatim>\<open>*params\<close> holds afterwards. The
  loop over the checkpoints copies each height and hash.
\<close>

fun copyCheckpoints :: "Checkpoint list \<Rightarrow> Checkpoint list" where
  "copyCheckpoints [] = []"
| "copyCheckpoints (c # cs) =
     \<lparr>cp_Height = cp_Height c, cp_Hash = cp_Hash c\<rparr> # copyCheckpoints cs"

definition applyMonacoinParams :: "bitcoinNetParams \<Rightarrow> monacoinNetParams \<Rightarrow> bitcoinNetParams" where
  "applyMonacoinParams params monacoinParams =
     \<lparr>Params = (Params params)
        \<lparr>Name := Name (mParams monacoinParams),
         Net := bitcoinWire_BitcoinNet (Net (mParams monacoinParams)),
         DefaultPort := DefaultPort (mParams monacoinParams),
         CoinbaseMaturity := CoinbaseMaturity (mParams monacoinParams),
         GenesisHash := GenesisHash (mParams monacoinParams),
         PubKeyHashAddrID := PubKeyHashAddrID (mParams monacoinParams),
         ScriptHashAddrID := ScriptHashAddrID (mParams monacoinParams),
         PrivateKeyID := PrivateKeyID (mParams monacoinParams),
         WitnessPubKeyHashAddrID := WitnessPubKeyHashAddrID (mParams monacoinParams),
         WitnessScriptHashAddrID := WitnessScriptHashAddrID (mParams monacoinParams),
         Bech32HRPSegwit := Bech32HRPSegwit (mParams monacoinParams),
         HDPrivateKeyID := HDPrivateKeyID (mParams monacoinParams),
         HDPublicKeyID := HDPublicKeyID (mParams monacoinParams),
         HDCoinType := HDCoinType (mParams monacoinParams),
         Checkpoints := copyCheckpoints (Checkpoints (mParams monacoinParams))\<rparr>,
      rpcPort = mrpcPort monacoinParams,
      CoinType = mCoinType monacoinParams\<rparr>"

text \<open>
  \<^verbatim>\<open>isTestnet\<close>: a switch on \<^verbatim>\<open>params.Params.Net\<close> with one case listing two values and
  a default.
\<close>

definition isTestnet :: "imported \<Rightarrow> bitcoinNetParams \<Rightarrow> bool" where
  "isTestnet E params =
     (if Net (Params params) = bitcoinWire_TestNet3 E
         \<or> Net (Params params) = bitcoinWire_BitcoinNet (monacoinWire_TestNet4 E)
      then True
      else False)"

text \<open>
  The parameter tables carry the magic of their network, and no other network shares a
  magic with one of the two test networks.
\<close>

definition tables_carry_magics :: "imported \<Rightarrow> bool" where
  "tables_carry_magics E =
     (Net (bitcoinCfg_MainNetParams E) = bitcoinWire_MainNet E
      \<and> Net (bitcoinCfg_TestNet3Params E) = bitcoinWire_TestNet3 E
      \<and> Net (bitcoinCfg_SimNetParams E) = bitcoinWire_SimNet E
      \<and> Net (bitcoinCfg_RegressionNetParams E) = bitcoinWire_TestNet E
      \<and> Net (monacoinCfg_MainNetParams E) = monacoinWire_MainNet E
      \<and> Net (monacoinCfg_TestNet4Params E) = monacoinWire_TestNet4 E)"

definition testnet_magics_apart :: "imported \<Rightarrow> bool" where
  "testnet_magics_apart E =
     (bitcoinWire_MainNet E \<noteq> bitcoinWire_TestNet3 E
      \<and> bitcoinWire_MainNet E \<noteq> bitcoinWire_BitcoinNet (monacoinWire_TestNet4 E)
      \<and> bitcoinWire_SimNet E \<noteq> bitcoinWire_TestNet3 E
      \<and> bitcoinWire_SimNet E \<noteq> bitcoinWire_BitcoinNet (monacoinWire_TestNet4 E)
      \<and> bitcoinWire_TestNet E \<noteq> bitcoinWire_TestNet3 E
      \<and> bitcoinWire_TestNet E \<noteq> bitcoinWire_BitcoinNet (monacoinWire_TestNet4 E)
      \<and> bitcoinWire_BitcoinNet (monacoinWire_MainNet E) \<noteq> bitcoinWire_TestNet3 E
      \<and> bitcoinWire_BitcoinNet (monacoinWire_MainNet E)
          \<noteq> bitcoinWire_BitcoinNet (monacoinWire_TestNet4 E))"

text \<open>
  An instance of the imports: the network magics of Bitcoin (as btcd's wire package
  declares them) and of Monacoin, in tables that are otherwise left at their zero values.
\<close>

definition zeroParams :: chaincfg_Params where
  "zeroParams =
     \<lparr>Name = [], Net = 0, DefaultPort = [], CoinbaseMaturity = 0, GenesisHash = 0,
      PubKeyHashAddrID = 0, ScriptHashAddrID = 0, PrivateKeyID = 0,
      WitnessPubKeyHashAddrID = 0, WitnessScriptHashAddrID = 0, Bech32HRPSegwit = [],
      HDPrivateKeyID = 0, HDPublicKeyID = 0, HDCoinType = 0, Checkpoints = []\<rparr>"

definition upstream :: imported where
  "upstream =
     \<lparr>bitcoinWire_MainNet = 0xd9b4bef9,
      bitcoinWire_TestNet = 0xdab5bffa,
      bitcoinWire_TestNet3 = 0x0709110b,
      bitcoinWire_SimNet = 0x12141c16,
      monacoinWire_MainNet = 0xdbb6c0fb,
      monacoinWire_TestNet4 = 0xf1c8d2fd,
      bitcoinCfg_MainNetParams = zeroParams\<lparr>Name := ''mainnet'', Net := 0xd9b4bef9\<rparr>,
      bitcoinCfg_TestNet3Params = zeroParams\<lparr>Name := ''testnet3'', Net := 0x0709110b\<rparr>,
      bitcoinCfg_SimNetParams = zeroParams\<lparr>Name := ''simnet'', Net := 0x12141c16\<rparr>,
      bitcoinCfg_RegressionNetParams = zeroParams\<lparr>Name := ''regtest'', Net := 0xdab5bffa\<rparr>,
      monacoinCfg_MainNetParams = zeroParams\<lparr>Name := ''mainnet'', Net := 0xdbb6c0fb\<rparr>,
      monacoinCfg_TestNet4Params = zeroParams\<lparr>Name := ''testnet4'', Net := 0xf1c8d2fd\<rparr>,
      keychain_CoinTypeBitcoin = 0,
      keychain_CoinTypeTestnet = 1,
      keychain_CoinTypeMonacoin = 22\<rparr>"


section \<open>The UTXO nursery: data (utxonursery test file)\<close>

text \<open>
  The test file of the nursery is part of the sources; the nursery itself
  (\<^verbatim>\<open>utxoNursery\<close>, \<^verbatim>\<open>nurseryStore\<close>) is not. The records below are the types the test
  file builds values of, with the fields it sets.
\<close>

record wire_OutPoint =
  Hash :: Hash
  Index :: "32 word"

record wire_TxOut =
  Value :: "64 word"
  PkScript :: "byte list"

record wire_TxIn =
  PreviousOutPoint :: wire_OutPoint
  SignatureScript :: "byte list"
  Witness :: "byte list list"
  Sequence :: "32 word"

record wire_MsgTx =
  Version :: "32 word"
  TxIn :: "wire_TxIn list"
  TxOut :: "wire_TxOut list"
  LockTime :: "32 word"

text \<open>
  \<^verbatim>\<open>lnwallet.SignDescriptor\<close> with the fields the test vectors set. The resolutions the
  test hands over all carry an \<^verbatim>\<open>Output\<close>, so the model holds it by value.
\<close>

record SignDescriptor =
  PubKey :: "byte list"
  SingleTweak :: "byte list"
  WitnessScript :: "byte list"
  Output :: wire_TxOut
  HashType :: "32 word"

text \<open>
  The witness-type tag of an output. The test vectors name \<^verbatim>\<open>CommitmentTimeLock\<close>; the
  other three tags stand for the HTLC rows of the spec's table of output kinds.
\<close>

datatype WitnessType =
  CommitmentTimeLock | IncomingHtlc | OutgoingHtlcRemoteCommit | OutgoingHtlcLocalCommit

record kidOutput =
  amt :: "64 word"
  outpoint :: wire_OutPoint
  witnessType :: WitnessType
  signDesc :: SignDescriptor
  originChanPoint :: wire_OutPoint
  blocksToMaturity :: "32 word"
  confHeight :: "32 word"

record babyOutput =
  kidOutput :: kidOutput
  expiry :: "32 word"
  timeoutTx :: wire_MsgTx

text \<open>The resolutions of lnwallet, as \<^verbatim>\<open>createOutgoingRes\<close> and \<^verbatim>\<open>createCommitmentRes\<close> fill them.\<close>

record OutgoingHtlcResolution =
  Expiry :: "32 word"
  SignedTimeoutTx :: "wire_MsgTx option"
  CsvDelay :: "32 word"
  ClaimOutpoint :: wire_OutPoint
  SweepSignDesc :: SignDescriptor

record IncomingHtlcResolution =
  inCsvDelay :: "32 word"
  inClaimOutpoint :: wire_OutPoint
  inSweepSignDesc :: SignDescriptor

record CommitOutputResolution =
  SelfOutPoint :: wire_OutPoint
  SelfOutputSignDesc :: SignDescriptor
  MaturityDelay :: "32 word"

text \<open>
  \<^verbatim>\<open>ErrContractNotFound\<close> is the nursery's error; \<^verbatim>\<open>ErrConfirmationNotConsumed\<close> is the
  error \<^verbatim>\<open>confirmTx\<close> of the mock notifier returns ("confirmation not consumed");
  \<^verbatim>\<open>ErrTxNotPublished\<close> is the failure of \<^verbatim>\<open>receiveTx\<close> ("tx not published");
  \<^verbatim>\<open>ErrOutputNotFound\<close> is a store transition that was not applied.
\<close>

datatype error =
  ErrContractNotFound | ErrOutputNotFound | ErrConfirmationNotConsumed | ErrTxNotPublished

section \<open>The nursery store\<close>

text \<open>
  Modelled from the spec: the stages of the state machine (section 3). The nursery
  store is not in the sources.
\<close>

datatype Stage = CRIB | PSCL | KNDR | GRAD

text \<open>
  Modelled from the spec: a stored record is a kid or a baby, as a tagged variant
  (sections 3 and 9).
\<close>

datatype NurseryOutput = Baby babyOutput | Kid kidOutput

text \<open>
  Modelled from the spec: the persisted layout of section 6. The channel index maps a
  channel point to its outputs, each with its stage and record; the height index maps
  a height to the outputs filed there; the finalization index maps a height to its sweep
  transaction; the two watermarks are single values.
\<close>

record NurseryStore =
  channelIndex :: "(wire_OutPoint \<times> (wire_OutPoint \<times> Stage \<times> NurseryOutput) list) list"
  heightIndex :: "(32 word \<times> (wire_OutPoint \<times> wire_OutPoint) list) list"
  finalizedTxs :: "(32 word \<times> wire_MsgTx) list"
  lastGraduatedHeight :: "32 word"
  lastFinalizedHeight :: "32 word"

text \<open>Modelled from the spec: the store over a fresh database (\<^verbatim>\<open>newNurseryStore\<close>).\<close>

definition newNurseryStore :: NurseryStore where
  "newNurseryStore =
     \<lparr>channelIndex = [], heightIndex = [], finalizedTxs = [],
      lastGraduatedHeight = 0, lastFinalizedHeight = 0\<rparr>"

text \<open>Modelled from the spec: the outputs of a channel, none when it has no record.\<close>

definition chanOutputs ::
  "NurseryStore \<Rightarrow> wire_OutPoint \<Rightarrow> (wire_OutPoint \<times> Stage \<times> NurseryOutput) list" where
  "chanOutputs st cp = (case map_of (channelIndex st) cp of None \<Rightarrow> [] | Some outs \<Rightarrow> outs)"

text \<open>Modelled from the spec: the entry \<^verbatim>\<open>/channel/<chanPoint>/output/<outpoint>\<close>.\<close>

definition lookupOutput ::
  "NurseryStore \<Rightarrow> wire_OutPoint \<Rightarrow> wire_OutPoint \<Rightarrow> (Stage \<times> NurseryOutput) option" where
  "lookupOutput st cp op = map_of (chanOutputs st cp) op"

text \<open>Modelled from the spec: the one stage an output occupies.\<close>

definition stageOf :: "NurseryStore \<Rightarrow> wire_OutPoint \<Rightarrow> wire_OutPoint \<Rightarrow> Stage option" where
  "stageOf st cp op = map_option fst (lookupOutput st cp op)"

text \<open>Modelled from the spec: writing an output's entry in the channel index.\<close>

definition putOutput ::
  "wire_OutPoint \<Rightarrow> wire_OutPoint \<Rightarrow> Stage \<Rightarrow> NurseryOutput \<Rightarrow> NurseryStore \<Rightarrow> NurseryStore" where
  "putOutput cp op stg out st =
     st\<lparr>channelIndex :=
          AList.update cp (AList.update op (stg, out) (chanOutputs st cp)) (channelIndex st)\<rparr>"

text \<open>Modelled from the spec: the outputs filed at a height, \<^verbatim>\<open>/height/<h>/output/...\<close>.\<close>

definition filedAt :: "NurseryStore \<Rightarrow> 32 word \<Rightarrow> (wire_OutPoint \<times> wire_OutPoint) list" where
  "filedAt st h = (case map_of (heightIndex st) h of None \<Rightarrow> [] | Some l \<Rightarrow> l)"

text \<open>Modelled from the spec: filing an output on the height index.\<close>

definition fileAt ::
  "32 word \<Rightarrow> wire_OutPoint \<Rightarrow> wire_OutPoint \<Rightarrow> NurseryStore \<Rightarrow> NurseryStore" where
  "fileAt h cp op st =
     (if (cp, op) \<in> set (filedAt st h) then st
      else st\<lparr>heightIndex := AList.update h (filedAt st h @ [(cp, op)]) (heightIndex st)\<rparr>)"

text \<open>
  Modelled from the spec: removing an output from the height index; a height with no
  output left is dropped from the index.
\<close>

definition unfileAt ::
  "32 word \<Rightarrow> wire_OutPoint \<Rightarrow> wire_OutPoint \<Rightarrow> NurseryStore \<Rightarrow> NurseryStore" where
  "unfileAt h cp op st =
     (let rest = removeAll (cp, op) (filedAt st h)
      in st\<lparr>heightIndex :=
              (if rest = [] then AList.delete h (heightIndex st)
               else AList.update h rest (heightIndex st))\<rparr>)"

text \<open>
  Modelled from the spec: \<^verbatim>\<open>Incubate\<close> puts a baby in CRIB, filed at its CLTV expiry.
  Inserting an outpoint the channel already holds is a no-op.
\<close>

definition incubateBaby :: "babyOutput \<Rightarrow> NurseryStore \<Rightarrow> NurseryStore" where
  "incubateBaby b st =
     (let cp = originChanPoint (kidOutput b); op = outpoint (kidOutput b)
      in if lookupOutput st cp op \<noteq> None then st
         else fileAt (expiry b) cp op (putOutput cp op CRIB (Baby b) st))"

text \<open>
  Modelled from the spec: \<^verbatim>\<open>Incubate\<close> puts a kid in PRESCHOOL; only KINDERGARTEN kids
  and CRIB babies are on the height index.
\<close>

definition incubateKid :: "kidOutput \<Rightarrow> NurseryStore \<Rightarrow> NurseryStore" where
  "incubateKid k st =
     (let cp = originChanPoint k; op = outpoint k
      in if lookupOutput st cp op \<noteq> None then st
         else putOutput cp op PSCL (Kid k) st)"

text \<open>Modelled from the spec: \<^verbatim>\<open>Incubate(kids, babies)\<close> of section 4.1.\<close>

definition Incubate :: "kidOutput list \<Rightarrow> babyOutput list \<Rightarrow> NurseryStore \<Rightarrow> NurseryStore" where
  "Incubate kids babies st = fold incubateKid kids (fold incubateBaby babies st)"

text \<open>
  Modelled from the spec: \<^verbatim>\<open>CribToKinder(baby)\<close> replaces the baby by its kid form in
  KINDERGARTEN and files it at \<^verbatim>\<open>confHeight + blocksToMaturity\<close>. It applies to a record
  that is in CRIB, and is not applied at all otherwise.
\<close>

definition CribToKinder :: "babyOutput \<Rightarrow> NurseryStore \<Rightarrow> error + NurseryStore" where
  "CribToKinder b st =
     (let k = kidOutput b; cp = originChanPoint k; op = outpoint k
      in if stageOf st cp op = Some CRIB
         then Inr (fileAt (confHeight k + blocksToMaturity k) cp op
                    (putOutput cp op KNDR (Kid k) (unfileAt (expiry b) cp op st)))
         else Inl ErrOutputNotFound)"

text \<open>
  Modelled from the spec: \<^verbatim>\<open>PreschoolToKinder\<close> moves a kid whose confirmation height
  is now set to KINDERGARTEN and files it on the height index. The kid carries the
  confirmation height, as in the signature the store interceptor of the test file shows.
\<close>

definition PreschoolToKinder :: "kidOutput \<Rightarrow> NurseryStore \<Rightarrow> error + NurseryStore" where
  "PreschoolToKinder k st =
     (let cp = originChanPoint k; op = outpoint k
      in if stageOf st cp op = Some PSCL
         then Inr (fileAt (confHeight k + blocksToMaturity k) cp op
                    (putOutput cp op KNDR (Kid k) st))
         else Inl ErrOutputNotFound)"

text \<open>Modelled from the spec: \<^verbatim>\<open>HeightsBelowOrEqual(h)\<close>, ascending.\<close>

definition HeightsBelowOrEqual :: "32 word \<Rightarrow> NurseryStore \<Rightarrow> 32 word list" where
  "HeightsBelowOrEqual h st = sort (filter (\<lambda>h'. h' \<le> h) (map fst (heightIndex st)))"

text \<open>Modelled from the spec: the outputs filed at a height up to \<^verbatim>\<open>h\<close>, lowest height first.\<close>

definition filedBelowOrEqual ::
  "32 word \<Rightarrow> NurseryStore \<Rightarrow> (wire_OutPoint \<times> wire_OutPoint) list" where
  "filedBelowOrEqual h st = concat (map (filedAt st) (HeightsBelowOrEqual h st))"

text \<open>Modelled from the spec: the KINDERGARTEN kid behind a height index entry, if it is one.\<close>

definition kidAt :: "NurseryStore \<Rightarrow> wire_OutPoint \<times> wire_OutPoint \<Rightarrow> kidOutput option" where
  "kidAt st e =
     (case lookupOutput st (fst e) (snd e) of
        Some (KNDR, Kid k) \<Rightarrow> Some k
      | _ \<Rightarrow> None)"

text \<open>Modelled from the spec: the CRIB baby behind a height index entry, if it is one.\<close>

definition babyAt :: "NurseryStore \<Rightarrow> wire_OutPoint \<times> wire_OutPoint \<Rightarrow> babyOutput option" where
  "babyAt st e =
     (case lookupOutput st (fst e) (snd e) of
        Some (CRIB, Baby b) \<Rightarrow> Some b
      | _ \<Rightarrow> None)"

text \<open>
  Modelled from the spec: \<^verbatim>\<open>FetchClass(height)\<close> returns the finalized sweep transaction
  of the height if there is one, the KINDERGARTEN kids due at or below the height and
  the CRIB babies whose CLTV is at or below it.
\<close>

definition FetchClass ::
  "32 word \<Rightarrow> NurseryStore \<Rightarrow> wire_MsgTx option \<times> kidOutput list \<times> babyOutput list" where
  "FetchClass h st =
     (map_of (finalizedTxs st) h,
      List.map_filter (kidAt st) (filedBelowOrEqual h st),
      List.map_filter (babyAt st) (filedBelowOrEqual h st))"

text \<open>
  Modelled from the spec: \<^verbatim>\<open>FinalizeKinder(height, tx)\<close> records the sweep transaction of
  the height; a second call for the same height is a no-op. The last finalized height is
  the highest height finalized.
\<close>

definition FinalizeKinder :: "32 word \<Rightarrow> wire_MsgTx \<Rightarrow> NurseryStore \<Rightarrow> NurseryStore" where
  "FinalizeKinder h tx st =
     (if map_of (finalizedTxs st) h \<noteq> None then st
      else st\<lparr>finalizedTxs := AList.update h tx (finalizedTxs st),
              lastFinalizedHeight := max (lastFinalizedHeight st) h\<rparr>)"

text \<open>
  Modelled from the spec: graduating one height index entry, if it is a KINDERGARTEN
  kid: its stage becomes GRADUATED and it leaves the height index.
\<close>

definition graduateOutput ::
  "32 word \<Rightarrow> wire_OutPoint \<times> wire_OutPoint \<Rightarrow> NurseryStore \<Rightarrow> NurseryStore" where
  "graduateOutput h e st =
     (case kidAt st e of
        None \<Rightarrow> st
      | Some k \<Rightarrow> unfileAt h (fst e) (snd e) (putOutput (fst e) (snd e) GRAD (Kid k) st))"

text \<open>Modelled from the spec: graduating the kindergarten outputs filed at one height.\<close>

definition graduateFiledAt :: "32 word \<Rightarrow> NurseryStore \<Rightarrow> NurseryStore" where
  "graduateFiledAt h st = fold (graduateOutput h) (filedAt st h) st"

text \<open>
  Modelled from the spec: the first part of \<^verbatim>\<open>GraduateKinder(height)\<close>, moving all
  kindergarten outputs filed at or below the height to GRADUATED.
\<close>

definition graduateFiled :: "32 word \<Rightarrow> NurseryStore \<Rightarrow> NurseryStore" where
  "graduateFiled h st = fold graduateFiledAt (HeightsBelowOrEqual h st) st"

text \<open>Modelled from the spec: a channel all of whose outputs have graduated.\<close>

definition allGraduated :: "(wire_OutPoint \<times> Stage \<times> NurseryOutput) list \<Rightarrow> bool" where
  "allGraduated outs = list_all (\<lambda>e. fst (snd e) = GRAD) outs"

text \<open>Modelled from the spec: pruning every channel whose last output has graduated.\<close>

definition pruneChannels :: "NurseryStore \<Rightarrow> NurseryStore" where
  "pruneChannels st =
     st\<lparr>channelIndex := filter (\<lambda>c. \<not> allGraduated (snd c)) (channelIndex st)\<rparr>"

text \<open>
  Modelled from the spec: \<^verbatim>\<open>GraduateKinder(height)\<close> graduates the outputs, removes the
  finalized sweep record of the height and prunes the channels.
\<close>

definition GraduateKinder :: "32 word \<Rightarrow> NurseryStore \<Rightarrow> NurseryStore" where
  "GraduateKinder h st =
     pruneChannels ((graduateFiled h st)\<lparr>finalizedTxs := AList.delete h (finalizedTxs st)\<rparr>)"

text \<open>
  Modelled from the spec: \<^verbatim>\<open>GraduateHeight(h)\<close> persists the watermark, the highest
  height for which graduation processing has completed.
\<close>

definition GraduateHeight :: "32 word \<Rightarrow> NurseryStore \<Rightarrow> NurseryStore" where
  "GraduateHeight h st = st\<lparr>lastGraduatedHeight := max (lastGraduatedHeight st) h\<rparr>"

text \<open>Modelled from the spec: \<^verbatim>\<open>LastGraduatedHeight()\<close>.\<close>

definition LastGraduatedHeight :: "NurseryStore \<Rightarrow> 32 word" where
  "LastGraduatedHeight st = lastGraduatedHeight st"

text \<open>Modelled from the spec: the PRESCHOOL kid of a channel index entry, if it is one.\<close>

definition preschoolOf :: "wire_OutPoint \<times> Stage \<times> NurseryOutput \<Rightarrow> kidOutput option" where
  "preschoolOf e = (case snd e of (PSCL, Kid k) \<Rightarrow> Some k | _ \<Rightarrow> None)"

text \<open>Modelled from the spec: \<^verbatim>\<open>FetchPreschools()\<close>, all PRESCHOOL kids.\<close>

definition FetchPreschools :: "NurseryStore \<Rightarrow> kidOutput list" where
  "FetchPreschools st = List.map_filter preschoolOf (concat (map snd (channelIndex st)))"

text \<open>
  Modelled from the spec: \<^verbatim>\<open>ForChanOutputs(chanPoint, cb)\<close>; a channel with no record
  gives \<^verbatim>\<open>ErrContractNotFound\<close>.
\<close>

definition ForChanOutputs ::
  "wire_OutPoint \<Rightarrow> NurseryStore \<Rightarrow> error + (wire_OutPoint \<times> Stage \<times> NurseryOutput) list" where
  "ForChanOutputs cp st =
     (case map_of (channelIndex st) cp of
        None \<Rightarrow> Inl ErrContractNotFound
      | Some outs \<Rightarrow> Inr outs)"

text \<open>Modelled from the spec: \<^verbatim>\<open>ListChannels()\<close>.\<close>

definition ListChannels :: "NurseryStore \<Rightarrow> wire_OutPoint list" where
  "ListChannels st = map fst (channelIndex st)"

section \<open>The nursery\<close>

text \<open>
  The collaborators of section 6 that the nursery is configured with. \<^verbatim>\<open>TxHash\<close> is the
  hash function of the wire package, which is not part of the sources; the fee estimate
  and the weight of a sweep are the estimator's.
\<close>

record NurseryConfig =
  TxHash :: "wire_MsgTx \<Rightarrow> Hash"
  GenSweepScript :: "byte list"
  EstimateFeePerKW :: "nat \<Rightarrow> 64 word option"
  StaticFeePerKW :: "64 word"
  TxWeight :: "kidOutput list \<Rightarrow> 64 word"
  SignOutputRaw :: "wire_MsgTx \<Rightarrow> SignDescriptor \<Rightarrow> byte list option"

text \<open>
  Modelled from the spec: what the incubator does when a confirmation it registered for
  arrives (section 4.2, "on each asynchronous event", and step 8 of section 4.3).
\<close>

datatype Waiter = WaitPreschool kidOutput | WaitCrib babyOutput | WaitSweep "32 word"

text \<open>The channels of \<^verbatim>\<open>nurseryStoreInterceptor\<close> the tests wait on.\<close>

datatype Signal = cribToKinderChan | preschoolToKinderChan | graduateKinderChan

text \<open>
  The nursery with what it acts on: its store, the tip it knows, the confirmation
  notifications it waits for (a transaction hash of the mock notifier's \<^verbatim>\<open>confChannel\<close>
  map with what the nursery does on receipt), the timeout transactions it has broadcast
  and at which height, the transactions sent to \<^verbatim>\<open>publishChan\<close> and not yet received by
  the test, and the signals of the store interceptor.
\<close>

record utxoNursery =
  store :: NurseryStore
  bestHeight :: "32 word"
  confNtfns :: "(Hash \<times> Waiter) list"
  broadcasts :: "((wire_OutPoint \<times> wire_OutPoint) \<times> 32 word) list"
  published :: "wire_MsgTx list"
  signals :: "Signal list"

text \<open>\<^verbatim>\<open>cfg.PublishTransaction\<close> of \<^verbatim>\<open>createNurseryTestContext\<close>: the transaction goes to \<^verbatim>\<open>publishChan\<close>.\<close>

definition PublishTransaction :: "wire_MsgTx \<Rightarrow> utxoNursery \<Rightarrow> utxoNursery" where
  "PublishTransaction tx n = n\<lparr>published := published n @ [tx]\<rparr>"

text \<open>
  \<^verbatim>\<open>RegisterConfirmationsNtfn\<close> of the mock notifier hands out the channel of the
  transaction hash; the nursery then waits on it.
\<close>

definition RegisterConfirmationsNtfn :: "Hash \<Rightarrow> Waiter \<Rightarrow> utxoNursery \<Rightarrow> utxoNursery" where
  "RegisterConfirmationsNtfn txid w n = n\<lparr>confNtfns := confNtfns n @ [(txid, w)]\<rparr>"

text \<open>Modelled from the spec: the key of a baby in the store, its channel point and outpoint.\<close>

definition babyKey :: "babyOutput \<Rightarrow> wire_OutPoint \<times> wire_OutPoint" where
  "babyKey b = (originChanPoint (kidOutput b), outpoint (kidOutput b))"

text \<open>
  Modelled from the spec: broadcasting the pre-signed timeout transaction of a baby at a
  height.
\<close>

definition broadcastTimeoutTx :: "32 word \<Rightarrow> babyOutput \<Rightarrow> utxoNursery \<Rightarrow> utxoNursery" where
  "broadcastTimeoutTx h b n =
     PublishTransaction (timeoutTx b) (n\<lparr>broadcasts := broadcasts n @ [(babyKey b, h)]\<rparr>)"

text \<open>
  Modelled from the spec: "broadcast its timeout tx and register a confirmation
  notification; do not advance its stage yet" (section 4.2).
\<close>

definition sweepCribOutput ::
  "NurseryConfig \<Rightarrow> 32 word \<Rightarrow> babyOutput \<Rightarrow> utxoNursery \<Rightarrow> utxoNursery" where
  "sweepCribOutput cfg h b n =
     RegisterConfirmationsNtfn (TxHash cfg (timeoutTx b)) (WaitCrib b) (broadcastTimeoutTx h b n)"

text \<open>
  Modelled from the spec: the confirmation notification of a PRESCHOOL kid, registered
  on the hash of its outpoint (sections 4.2 and 9).
\<close>

definition registerPreschoolConf :: "kidOutput \<Rightarrow> utxoNursery \<Rightarrow> utxoNursery" where
  "registerPreschoolConf k n = RegisterConfirmationsNtfn (Hash (outpoint k)) (WaitPreschool k) n"

text \<open>Modelled from the spec: steps 6 and 7 of \<^verbatim>\<open>graduateClass\<close>, publish and register.\<close>

definition publishSweep ::
  "NurseryConfig \<Rightarrow> 32 word \<Rightarrow> wire_MsgTx \<Rightarrow> utxoNursery \<Rightarrow> utxoNursery" where
  "publishSweep cfg h tx n =
     RegisterConfirmationsNtfn (TxHash cfg tx) (WaitSweep h) (PublishTransaction tx n)"

text \<open>
  Modelled from the spec: each input of the sweep spends one kid and is signed through
  the signer; a signer failure fails the sweep.
\<close>

primrec signInputs ::
  "NurseryConfig \<Rightarrow> wire_MsgTx \<Rightarrow> kidOutput list \<Rightarrow> wire_TxIn list option" where
  "signInputs cfg tx [] = Some []"
| "signInputs cfg tx (k # ks) =
     (case SignOutputRaw cfg tx (signDesc k) of
        None \<Rightarrow> None
      | Some sig \<Rightarrow>
          (case signInputs cfg tx ks of
             None \<Rightarrow> None
           | Some ins \<Rightarrow>
               Some (\<lparr>PreviousOutPoint = outpoint k, SignatureScript = [], Witness = [sig],
                      Sequence = blocksToMaturity k\<rparr> # ins)))"

text \<open>
  Modelled from the spec: the fee is the estimate for confirmation target 6, or the
  static rate when the estimate fails, times the weight (a rate per 1000 weight units).
\<close>

definition sweepFee :: "NurseryConfig \<Rightarrow> kidOutput list \<Rightarrow> 64 word" where
  "sweepFee cfg kids =
     (case EstimateFeePerKW cfg 6 of Some rate \<Rightarrow> rate | None \<Rightarrow> StaticFeePerKW cfg)
       * TxWeight cfg kids div 1000"

text \<open>
  Modelled from the spec: the sweep transaction before signing, one input per kid and a
  single output paying the swept amount less the fee to the script of
  \<^verbatim>\<open>GenSweepScript\<close>. The spec leaves version, sequence numbers and lock time open; the
  model takes version 2 and the CSV delay of each kid as its input's sequence number.
\<close>

definition unsignedSweepTx :: "NurseryConfig \<Rightarrow> kidOutput list \<Rightarrow> wire_MsgTx" where
  "unsignedSweepTx cfg kids =
     \<lparr>Version = 2,
      TxIn = map (\<lambda>k. \<lparr>PreviousOutPoint = outpoint k, SignatureScript = [], Witness = [],
                        Sequence = blocksToMaturity k\<rparr>) kids,
      TxOut = [\<lparr>Value = sum_list (map amt kids) - sweepFee cfg kids,
                PkScript = GenSweepScript cfg\<rparr>],
      LockTime = 0\<rparr>"

text \<open>Modelled from the spec: step 5 of \<^verbatim>\<open>graduateClass\<close>, building the sweep transaction.\<close>

definition buildSweepTx :: "NurseryConfig \<Rightarrow> kidOutput list \<Rightarrow> wire_MsgTx option" where
  "buildSweepTx cfg kids =
     (case signInputs cfg (unsignedSweepTx cfg kids) kids of
        None \<Rightarrow> None
      | Some ins \<Rightarrow> Some ((unsignedSweepTx cfg kids)\<lparr>TxIn := ins\<rparr>))"

text \<open>
  Modelled from the spec: step 2 of \<^verbatim>\<open>graduateClass\<close>, rebroadcasting a baby whose
  timeout transaction has not yet been broadcast at this height.
\<close>

definition rebroadcastAt :: "32 word \<Rightarrow> babyOutput \<Rightarrow> utxoNursery \<Rightarrow> utxoNursery" where
  "rebroadcastAt h b n =
     (if (babyKey b, h) \<in> set (broadcasts n) then n else broadcastTimeoutTx h b n)"

text \<open>
  Modelled from the spec: \<^verbatim>\<open>graduateClass(h)\<close> of section 4.3. A finalized transaction is
  reused; otherwise the sweep is built and finalized before it is published. When the
  signer fails the height stays un-finalized.
\<close>

definition graduateClass :: "NurseryConfig \<Rightarrow> 32 word \<Rightarrow> utxoNursery \<Rightarrow> utxoNursery" where
  "graduateClass cfg h n =
     (case FetchClass h (store n) of
        (existingTx, kids, babies) \<Rightarrow>
          (let n1 = fold (rebroadcastAt h) babies n
           in if kids = [] then n1
              else (case existingTx of
                      Some tx \<Rightarrow> publishSweep cfg h tx n1
                    | None \<Rightarrow>
                        (case buildSweepTx cfg kids of
                           None \<Rightarrow> n1
                         | Some tx \<Rightarrow>
                             publishSweep cfg h tx
                               (n1\<lparr>store := FinalizeKinder h tx (store n1)\<rparr>)))))"

text \<open>
  Modelled from the spec: step 1 of the main loop, for a CRIB baby with
  \<^verbatim>\<open>expiry \<le> h\<close> that has not yet been broadcast.
\<close>

definition broadcastExpired ::
  "NurseryConfig \<Rightarrow> 32 word \<Rightarrow> babyOutput \<Rightarrow> utxoNursery \<Rightarrow> utxoNursery" where
  "broadcastExpired cfg h b n =
     (if babyKey b \<in> set (map fst (broadcasts n)) then n else sweepCribOutput cfg h b n)"

text \<open>
  Modelled from the spec: the main loop of the incubator on a block epoch at height
  \<^verbatim>\<open>h\<close> (section 4.2): broadcast the expired babies, drive \<^verbatim>\<open>graduateClass(h)\<close>, persist
  \<^verbatim>\<open>GraduateHeight(h)\<close>.
\<close>

definition onEpoch :: "NurseryConfig \<Rightarrow> 32 word \<Rightarrow> utxoNursery \<Rightarrow> utxoNursery" where
  "onEpoch cfg h n =
     (let n1 = fold (broadcastExpired cfg h) (snd (snd (FetchClass h (store n)))) n;
          n2 = graduateClass cfg h n1
      in n2\<lparr>store := GraduateHeight h (store n2), bestHeight := h\<rparr>)"

text \<open>
  \<^verbatim>\<open>nurseryStoreInterceptor.CribToKinder\<close>: call the store, signal the channel, return the
  store's error. A transition that fails leaves the store as it was.
\<close>

definition i_CribToKinder :: "babyOutput \<Rightarrow> utxoNursery \<Rightarrow> utxoNursery" where
  "i_CribToKinder b n =
     (case CribToKinder b (store n) of Inl e \<Rightarrow> n | Inr st \<Rightarrow> n\<lparr>store := st\<rparr>)
       \<lparr>signals := signals n @ [cribToKinderChan]\<rparr>"

text \<open>\<^verbatim>\<open>nurseryStoreInterceptor.PreschoolToKinder\<close>.\<close>

definition i_PreschoolToKinder :: "kidOutput \<Rightarrow> utxoNursery \<Rightarrow> utxoNursery" where
  "i_PreschoolToKinder k n =
     (case PreschoolToKinder k (store n) of Inl e \<Rightarrow> n | Inr st \<Rightarrow> n\<lparr>store := st\<rparr>)
       \<lparr>signals := signals n @ [preschoolToKinderChan]\<rparr>"

text \<open>\<^verbatim>\<open>nurseryStoreInterceptor.GraduateKinder\<close>.\<close>

definition i_GraduateKinder :: "32 word \<Rightarrow> utxoNursery \<Rightarrow> utxoNursery" where
  "i_GraduateKinder h n =
     n\<lparr>store := GraduateKinder h (store n), signals := signals n @ [graduateKinderChan]\<rparr>"

text \<open>
  Modelled from the spec: the incubator on a confirmation at height \<^verbatim>\<open>c\<close>. A preschool
  confirmation sets the kid's confirmation height and calls \<^verbatim>\<open>PreschoolToKinder\<close>; the
  confirmation of a baby's timeout transaction calls \<^verbatim>\<open>CribToKinder\<close> with
  \<^verbatim>\<open>confHeight = c\<close>; the confirmation of a sweep calls \<^verbatim>\<open>GraduateKinder(h)\<close>.
\<close>

primrec onConfirmation :: "Waiter \<Rightarrow> 32 word \<Rightarrow> utxoNursery \<Rightarrow> utxoNursery" where
  "onConfirmation (WaitPreschool k) c n = i_PreschoolToKinder (k\<lparr>confHeight := c\<rparr>) n"
| "onConfirmation (WaitCrib b) c n =
     i_CribToKinder (b\<lparr>kidOutput := (kidOutput b)\<lparr>confHeight := c\<rparr>\<rparr>) n"
| "onConfirmation (WaitSweep h) c n = i_GraduateKinder h n"

text \<open>
  The first receiver waiting on the channel of a transaction hash, and the receivers
  left once it has been served.
\<close>

primrec takeWaiter ::
  "Hash \<Rightarrow> (Hash \<times> Waiter) list \<Rightarrow> (Waiter \<times> (Hash \<times> Waiter) list) option" where
  "takeWaiter txid [] = None"
| "takeWaiter txid (r # rs) =
     (if fst r = txid then Some (snd r, rs)
      else (case takeWaiter txid rs of
              None \<Rightarrow> None
            | Some found \<Rightarrow> Some (fst found, r # snd found)))"

text \<open>
  \<^verbatim>\<open>nurseryMockNotifier.confirmTx\<close>: the confirmation is sent on the channel of the
  transaction hash; with no receiver it times out with "confirmation not consumed".
\<close>

definition confirmTx :: "Hash \<Rightarrow> 32 word \<Rightarrow> utxoNursery \<Rightarrow> error + utxoNursery" where
  "confirmTx txid height n =
     (case takeWaiter txid (confNtfns n) of
        None \<Rightarrow> Inl ErrConfirmationNotConsumed
      | Some found \<Rightarrow> Inr (onConfirmation (fst found) height (n\<lparr>confNtfns := snd found\<rparr>)))"

text \<open>
  \<^verbatim>\<open>newUtxoNursery(cfg)\<close>: a nursery over the store, the publish channel and the
  interceptor of the configuration, with nothing registered yet.
\<close>

definition newUtxoNursery :: "NurseryStore \<Rightarrow> wire_MsgTx list \<Rightarrow> Signal list \<Rightarrow> utxoNursery" where
  "newUtxoNursery st pub sigs =
     \<lparr>store = st, bestHeight = 0, confNtfns = [], broadcasts = [], published = pub,
      signals = sigs\<rparr>"

text \<open>
  Modelled from the spec: the startup sequence of section 4.2. The run begins at
  \<^verbatim>\<open>LastGraduatedHeight\<close> (section 5), which is the tip the nursery knows at that moment.
  Every PRESCHOOL kid gets its confirmation notification again; every CRIB baby whose
  CLTV is at or below the tip is broadcast again and registered; a CRIB baby not yet
  expired stays on the height index for the epoch that reaches its CLTV; every
  finalized sweep transaction still in the store is published again (section 5).
\<close>

definition Start :: "NurseryConfig \<Rightarrow> utxoNursery \<Rightarrow> utxoNursery" where
  "Start cfg n =
     (let h = LastGraduatedHeight (store n);
          n1 = fold registerPreschoolConf (FetchPreschools (store n)) (n\<lparr>bestHeight := h\<rparr>);
          n2 = fold (sweepCribOutput cfg h) (snd (snd (FetchClass h (store n)))) n1
      in fold (\<lambda>f. publishSweep cfg (fst f) (snd f)) (finalizedTxs (store n)) n2)"

text \<open>
  Modelled from the spec: a kid made from a resolution. Its amount is the value of the
  output its sign descriptor carries, which is where the test puts the amount 10000; its
  confirmation height is not yet known.
\<close>

definition makeKidOutput ::
  "wire_OutPoint \<Rightarrow> wire_OutPoint \<Rightarrow> 32 word \<Rightarrow> WitnessType \<Rightarrow> SignDescriptor \<Rightarrow> kidOutput" where
  "makeKidOutput op cp delay wt sd =
     \<lparr>amt = Value (Output sd), outpoint = op, witnessType = wt, signDesc = sd,
      originChanPoint = cp, blocksToMaturity = delay, confHeight = 0\<rparr>"

text \<open>
  Modelled from the spec: an outgoing HTLC resolution without a signed timeout
  transaction is a kid, claimed directly on the remote commitment with no CSV delay.
\<close>

definition outgoingKid :: "wire_OutPoint \<Rightarrow> OutgoingHtlcResolution \<Rightarrow> kidOutput option" where
  "outgoingKid cp r =
     (case SignedTimeoutTx r of
        Some tx \<Rightarrow> None
      | None \<Rightarrow> Some (makeKidOutput (ClaimOutpoint r) cp 0 OutgoingHtlcRemoteCommit
                        (SweepSignDesc r)))"

text \<open>
  Modelled from the spec: an outgoing HTLC resolution that carries a pre-signed timeout
  transaction is a baby, with the CLTV expiry and the CSV delay of the resolution.
\<close>

definition outgoingBaby :: "wire_OutPoint \<Rightarrow> OutgoingHtlcResolution \<Rightarrow> babyOutput option" where
  "outgoingBaby cp r =
     (case SignedTimeoutTx r of
        None \<Rightarrow> None
      | Some tx \<Rightarrow>
          Some \<lparr>kidOutput = makeKidOutput (ClaimOutpoint r) cp (CsvDelay r)
                              OutgoingHtlcLocalCommit (SweepSignDesc r),
                expiry = Expiry r, timeoutTx = tx\<rparr>)"

text \<open>
  Modelled from the spec: \<^verbatim>\<open>IncubateOutputs\<close> of section 4.4 classifies the resolutions,
  issues one \<^verbatim>\<open>Incubate\<close> call and registers the confirmation notifications of the kids.
\<close>

definition IncubateOutputs ::
  "wire_OutPoint \<Rightarrow> CommitOutputResolution option \<Rightarrow> OutgoingHtlcResolution list
    \<Rightarrow> IncomingHtlcResolution list \<Rightarrow> 32 word \<Rightarrow> utxoNursery \<Rightarrow> utxoNursery" where
  "IncubateOutputs chanPoint commitResolution outgoingHtlcs incomingHtlcs broadcastHeight n =
     (let kids =
            (case commitResolution of
               None \<Rightarrow> []
             | Some r \<Rightarrow> [makeKidOutput (SelfOutPoint r) chanPoint (MaturityDelay r)
                             CommitmentTimeLock (SelfOutputSignDesc r)])
            @ map (\<lambda>r. makeKidOutput (inClaimOutpoint r) chanPoint (inCsvDelay r) IncomingHtlc
                          (inSweepSignDesc r)) incomingHtlcs
            @ List.map_filter (outgoingKid chanPoint) outgoingHtlcs;
          babies = List.map_filter (outgoingBaby chanPoint) outgoingHtlcs
      in fold registerPreschoolConf kids (n\<lparr>store := Incubate kids babies (store n)\<rparr>))"

text \<open>The fields of the report that \<^verbatim>\<open>assertNurseryReport\<close> reads, and the spec's other ones.\<close>

record htlcMaturityReport =
  r_outpoint :: wire_OutPoint
  r_amount :: "64 word"
  r_stage :: "32 word"
  r_maturityHeight :: "32 word"

record contractMaturityReport =
  limboBalance :: "64 word"
  recoveredBalance :: "64 word"
  htlcs :: "htlcMaturityReport list"

text \<open>Modelled from the spec: the kid record inside a stored output.\<close>

primrec kidOf :: "NurseryOutput \<Rightarrow> kidOutput" where
  "kidOf (Baby b) = kidOutput b"
| "kidOf (Kid k) = k"

text \<open>
  Modelled from the spec: the stage number of the report, 1 for CRIB and 2 for
  KINDERGARTEN, with PRESCHOOL folded into 2.
\<close>

primrec stageNumber :: "Stage \<Rightarrow> 32 word" where
  "stageNumber CRIB = 1"
| "stageNumber PSCL = 2"
| "stageNumber KNDR = 2"
| "stageNumber GRAD = 0"

text \<open>
  Modelled from the spec: the height at which an output next needs action, its CLTV
  expiry for a baby and \<^verbatim>\<open>confHeight + blocksToMaturity\<close> for a kid.
\<close>

primrec maturityHeight :: "NurseryOutput \<Rightarrow> 32 word" where
  "maturityHeight (Baby b) = expiry b"
| "maturityHeight (Kid k) = confHeight k + blocksToMaturity k"

text \<open>Modelled from the spec: the report entry of an HTLC output that has not graduated.\<close>

definition htlcReport ::
  "wire_OutPoint \<times> Stage \<times> NurseryOutput \<Rightarrow> htlcMaturityReport option" where
  "htlcReport e =
     (if fst (snd e) = GRAD \<or> witnessType (kidOf (snd (snd e))) = CommitmentTimeLock then None
      else Some \<lparr>r_outpoint = fst e, r_amount = amt (kidOf (snd (snd e))),
                 r_stage = stageNumber (fst (snd e)),
                 r_maturityHeight = maturityHeight (snd (snd e))\<rparr>)"

text \<open>
  Modelled from the spec: \<^verbatim>\<open>NurseryReport(chanPoint)\<close> of section 4.4. A channel with no
  record gives \<^verbatim>\<open>ErrContractNotFound\<close>. The limbo balance is the spec's sum over the
  outputs that have not graduated. The test file notes at \<^verbatim>\<open>incubateTestOutput\<close> that the
  nursery does not report this balance for an HTLC on the remote commitment that still
  awaits its confirmation; the run below reads the report in CRIB and in KINDERGARTEN
  only, where the test asserts it.
\<close>

definition NurseryReport :: "wire_OutPoint \<Rightarrow> utxoNursery \<Rightarrow> error + contractMaturityReport" where
  "NurseryReport chanPoint n =
     (case ForChanOutputs chanPoint (store n) of
        Inl e \<Rightarrow> Inl e
      | Inr outs \<Rightarrow>
          Inr \<lparr>limboBalance =
                 sum_list (map (\<lambda>e. amt (kidOf (snd (snd e))))
                             (filter (\<lambda>e. fst (snd e) \<noteq> GRAD) outs)),
               recoveredBalance =
                 sum_list (map (\<lambda>e. amt (kidOf (snd (snd e))))
                             (filter (\<lambda>e. fst (snd e) = GRAD) outs)),
               htlcs = List.map_filter htlcReport outs\<rparr>)"

section \<open>The test harness (utxonursery test file)\<close>

text \<open>\<^verbatim>\<open>testChanPoint = wire.OutPoint{}\<close>.\<close>

definition testChanPoint :: wire_OutPoint where
  "testChanPoint = \<lparr>Hash = 0, Index = 0\<rparr>"

text \<open>The zero values \<^verbatim>\<open>wire.MsgTx{}\<close>, \<^verbatim>\<open>wire.TxOut{}\<close> and \<^verbatim>\<open>lnwallet.SignDescriptor{}\<close>.\<close>

definition zeroMsgTx :: wire_MsgTx where
  "zeroMsgTx = \<lparr>Version = 0, TxIn = [], TxOut = [], LockTime = 0\<rparr>"

definition zeroTxOut :: wire_TxOut where
  "zeroTxOut = \<lparr>Value = 0, PkScript = []\<rparr>"

definition zeroSignDescriptor :: SignDescriptor where
  "zeroSignDescriptor =
     \<lparr>PubKey = [], SingleTweak = [], WitnessScript = [], Output = zeroTxOut, HashType = 0\<rparr>"

text \<open>
  \<^verbatim>\<open>createOutgoingRes(onLocalCommitment)\<close>: expiry 125, CSV delay 2, an output of value
  10000; on the local commitment a signed timeout transaction spending the HTLC
  outpoint, otherwise the HTLC outpoint as claim outpoint.
\<close>

definition createOutgoingRes :: "(wire_MsgTx \<Rightarrow> Hash) \<Rightarrow> bool \<Rightarrow> OutgoingHtlcResolution" where
  "createOutgoingRes txHash onLocalCommitment =
     (let closeTx = zeroMsgTx;
          htlcOp = \<lparr>Hash = txHash closeTx, Index = 0\<rparr>;
          outgoingRes =
            \<lparr>Expiry = 125, SignedTimeoutTx = None, CsvDelay = 2,
             ClaimOutpoint = \<lparr>Hash = 0, Index = 0\<rparr>,
             SweepSignDesc = zeroSignDescriptor\<lparr>Output := zeroTxOut\<lparr>Value := 10000\<rparr>\<rparr>\<rparr>
      in if onLocalCommitment
         then outgoingRes\<lparr>SignedTimeoutTx :=
                Some (zeroMsgTx\<lparr>TxIn := [\<lparr>PreviousOutPoint = htlcOp, SignatureScript = [],
                                           Witness = [[]], Sequence = 0\<rparr>],
                                 TxOut := [zeroTxOut]\<rparr>)\<rparr>
         else outgoingRes\<lparr>ClaimOutpoint := htlcOp\<rparr>)"

text \<open>\<^verbatim>\<open>nurseryMockSigner.SignOutputRaw\<close> returns an empty signature and no error.\<close>

definition nurseryMockSigner_SignOutputRaw :: "wire_MsgTx \<Rightarrow> SignDescriptor \<Rightarrow> byte list option" where
  "nurseryMockSigner_SignOutputRaw tx sd = Some []"

text \<open>
  The configuration of \<^verbatim>\<open>createNurseryTestContext\<close>: \<^verbatim>\<open>GenSweepScript\<close> returns the
  empty script, the signer is the mock. The hash function and the estimator come from
  packages that are not in the sources and stay parameters.
\<close>

definition testConfig ::
  "(wire_MsgTx \<Rightarrow> Hash) \<Rightarrow> (nat \<Rightarrow> 64 word option) \<Rightarrow> 64 word \<Rightarrow> (kidOutput list \<Rightarrow> 64 word)
    \<Rightarrow> NurseryConfig" where
  "testConfig txHash est static weight =
     \<lparr>TxHash = txHash, GenSweepScript = [], EstimateFeePerKW = est, StaticFeePerKW = static,
      TxWeight = weight, SignOutputRaw = nurseryMockSigner_SignOutputRaw\<rparr>"

text \<open>\<^verbatim>\<open>createNurseryTestContext\<close>: a store over a fresh database, a new nursery, started.\<close>

definition createNurseryTestContext :: "NurseryConfig \<Rightarrow> utxoNursery" where
  "createNurseryTestContext cfg = Start cfg (newUtxoNursery newNurseryStore [] [])"

text \<open>\<^verbatim>\<open>ctx.receiveTx\<close>: the next transaction of \<^verbatim>\<open>publishChan\<close>, or "tx not published".\<close>

definition receiveTx :: "utxoNursery \<Rightarrow> error + wire_MsgTx \<times> utxoNursery" where
  "receiveTx n =
     (case published n of
        [] \<Rightarrow> Inl ErrTxNotPublished
      | tx # rest \<Rightarrow> Inr (tx, n\<lparr>published := rest\<rparr>))"

text \<open>\<^verbatim>\<open>incubateTestOutput\<close>: hand the resolution of \<^verbatim>\<open>createOutgoingRes\<close> to the nursery.\<close>

definition incubateTestOutput :: "NurseryConfig \<Rightarrow> bool \<Rightarrow> utxoNursery \<Rightarrow> utxoNursery" where
  "incubateTestOutput cfg onLocalCommitment n =
     IncubateOutputs testChanPoint None [createOutgoingRes (TxHash cfg) onLocalCommitment] [] 0 n"

text \<open>\<^verbatim>\<open>nurseryMockNotifier.notifyEpoch\<close>: the block epoch is consumed by the incubator.\<close>

definition notifyEpoch :: "NurseryConfig \<Rightarrow> 32 word \<Rightarrow> utxoNursery \<Rightarrow> utxoNursery" where
  "notifyEpoch cfg height n = onEpoch cfg height n"

text \<open>
  The run of \<^verbatim>\<open>testNurseryOutgoingHtlcSuccessOnLocal\<close> in which no restart is injected:
  incubate, epoch 125, receive the published transaction, confirm the timeout
  transaction at 126, epoch 128, receive the sweep, confirm it at 129. The trace keeps
  the nursery after each step and the two transactions received.
\<close>

record scenarioTrace =
  incubated :: utxoNursery
  atExpiry :: utxoNursery
  firstTx :: wire_MsgTx
  promoted :: utxoNursery
  atMaturity :: utxoNursery
  sweepTx :: wire_MsgTx
  graduated :: utxoNursery

definition outgoingHtlcOnLocal :: "NurseryConfig \<Rightarrow> error + scenarioTrace" where
  "outgoingHtlcOnLocal cfg =
     (let outgoingRes = createOutgoingRes (TxHash cfg) True;
          n1 = incubateTestOutput cfg True (createNurseryTestContext cfg);
          n2 = notifyEpoch cfg 125 n1
      in case receiveTx n2 of
           Inl e \<Rightarrow> Inl e
         | Inr (tx1, n2') \<Rightarrow>
             (case SignedTimeoutTx outgoingRes of
                None \<Rightarrow> Inl ErrTxNotPublished
              | Some signedTimeoutTx \<Rightarrow>
                  (case confirmTx (TxHash cfg signedTimeoutTx) 126 n2' of
                     Inl e \<Rightarrow> Inl e
                   | Inr n3 \<Rightarrow>
                       (let n4 = notifyEpoch cfg 128 n3
                        in case receiveTx n4 of
                             Inl e \<Rightarrow> Inl e
                           | Inr (tx2, n4') \<Rightarrow>
                               (case confirmTx (TxHash cfg tx2) 129 n4' of
                                  Inl e \<Rightarrow> Inl e
                                | Inr n5 \<Rightarrow>
                                    Inr \<lparr>incubated = n1, atExpiry = n2, firstTx = tx1,
                                         promoted = n3, atMaturity = n4, sweepTx = tx2,
                                         graduated = n5\<rparr>)))))"

subsection \<open>The values the run passes through\<close>

definition htlcOutpoint :: wire_OutPoint where
  "htlcOutpoint = \<lparr>Hash = 0, Index = 0\<rparr>"

definition theTimeoutTx :: "(wire_MsgTx \<Rightarrow> Hash) \<Rightarrow> wire_MsgTx" where
  "theTimeoutTx txHash =
     \<lparr>Version = 0,
      TxIn = [\<lparr>PreviousOutPoint = \<lparr>Hash = txHash zeroMsgTx, Index = 0\<rparr>,
               SignatureScript = [], Witness = [[]], Sequence = 0\<rparr>],
      TxOut = [\<lparr>Value = 0, PkScript = []\<rparr>], LockTime = 0\<rparr>"

definition theKid :: "32 word \<Rightarrow> kidOutput" where
  "theKid c =
     \<lparr>amt = 10000, outpoint = \<lparr>Hash = 0, Index = 0\<rparr>,
      witnessType = OutgoingHtlcLocalCommit,
      signDesc = \<lparr>PubKey = [], SingleTweak = [], WitnessScript = [],
                   Output = \<lparr>Value = 10000, PkScript = []\<rparr>, HashType = 0\<rparr>,
      originChanPoint = \<lparr>Hash = 0, Index = 0\<rparr>,
      blocksToMaturity = 2, confHeight = c\<rparr>"

definition theBaby :: "(wire_MsgTx \<Rightarrow> Hash) \<Rightarrow> babyOutput" where
  "theBaby txHash = \<lparr>kidOutput = theKid 0, expiry = 125, timeoutTx = theTimeoutTx txHash\<rparr>"

definition theSweepTx :: "NurseryConfig \<Rightarrow> wire_MsgTx" where
  "theSweepTx cfg =
     \<lparr>Version = 2,
      TxIn = [\<lparr>PreviousOutPoint = htlcOutpoint, SignatureScript = [], Witness = [[]],
               Sequence = 2\<rparr>],
      TxOut = [\<lparr>Value = 10000 - sweepFee cfg [theKid 126], PkScript = []\<rparr>],
      LockTime = 0\<rparr>"

definition store1 :: "(wire_MsgTx \<Rightarrow> Hash) \<Rightarrow> NurseryStore" where
  "store1 txHash =
     \<lparr>channelIndex = [(testChanPoint, [(htlcOutpoint, CRIB, Baby (theBaby txHash))])],
      heightIndex = [(125, [(testChanPoint, htlcOutpoint)])],
      finalizedTxs = [], lastGraduatedHeight = 0, lastFinalizedHeight = 0\<rparr>"

definition state2 :: "(wire_MsgTx \<Rightarrow> Hash) \<Rightarrow> utxoNursery" where
  "state2 txHash =
     \<lparr>store = (store1 txHash)\<lparr>lastGraduatedHeight := 125\<rparr>, bestHeight = 125,
      confNtfns = [(txHash (theTimeoutTx txHash), WaitCrib (theBaby txHash))],
      broadcasts = [((testChanPoint, htlcOutpoint), 125)],
      published = [theTimeoutTx txHash], signals = []\<rparr>"

definition store3 :: NurseryStore where
  "store3 =
     \<lparr>channelIndex = [(testChanPoint, [(htlcOutpoint, KNDR, Kid (theKid 126))])],
      heightIndex = [(128, [(testChanPoint, htlcOutpoint)])],
      finalizedTxs = [], lastGraduatedHeight = 125, lastFinalizedHeight = 0\<rparr>"

definition state3 :: utxoNursery where
  "state3 =
     \<lparr>store = store3, bestHeight = 125, confNtfns = [],
      broadcasts = [((testChanPoint, htlcOutpoint), 125)],
      published = [], signals = [cribToKinderChan]\<rparr>"

definition store4 :: "NurseryConfig \<Rightarrow> NurseryStore" where
  "store4 cfg =
     \<lparr>channelIndex = [(testChanPoint, [(htlcOutpoint, KNDR, Kid (theKid 126))])],
      heightIndex = [(128, [(testChanPoint, htlcOutpoint)])],
      finalizedTxs = [(128, theSweepTx cfg)], lastGraduatedHeight = 128,
      lastFinalizedHeight = 128\<rparr>"

definition state4 :: "NurseryConfig \<Rightarrow> utxoNursery" where
  "state4 cfg =
     \<lparr>store = store4 cfg, bestHeight = 128,
      confNtfns = [(TxHash cfg (theSweepTx cfg), WaitSweep 128)],
      broadcasts = [((testChanPoint, htlcOutpoint), 125)],
      published = [theSweepTx cfg], signals = [cribToKinderChan]\<rparr>"

definition store4graduated :: "NurseryConfig \<Rightarrow> NurseryStore" where
  "store4graduated cfg =
     \<lparr>channelIndex = [(testChanPoint, [(htlcOutpoint, GRAD, Kid (theKid 126))])],
      heightIndex = [],
      finalizedTxs = [(128, theSweepTx cfg)], lastGraduatedHeight = 128,
      lastFinalizedHeight = 128\<rparr>"

definition state5 :: utxoNursery where
  "state5 =
     \<lparr>store = \<lparr>channelIndex = [], heightIndex = [], finalizedTxs = [],
               lastGraduatedHeight = 128, lastFinalizedHeight = 128\<rparr>,
      bestHeight = 128, confNtfns = [],
      broadcasts = [((testChanPoint, htlcOutpoint), 125)],
      published = [], signals = [cribToKinderChan, graduateKinderChan]\<rparr>"

section \<open>Properties of the chain parameters\<close>

lemma upstream_tables_carry_magics: "tables_carry_magics upstream"
  by (simp add: tables_carry_magics_def upstream_def zeroParams_def)

lemma upstream_testnet_magics_apart: "testnet_magics_apart upstream"
  by (simp add: testnet_magics_apart_def upstream_def bitcoinWire_BitcoinNet_def)

text \<open>
  C10. \<^verbatim>\<open>isTestnet\<close> returns true exactly when the network magic of the parameters is
  Bitcoin's TestNet3 or Monacoin's TestNet4 (converted to a \<^verbatim>\<open>BitcoinNet\<close>). Where the
  imported tables carry the magic of their network and no other network shares a magic
  with the two test networks, it returns false for the Bitcoin mainnet, simnet and
  regtest parameter sets and for parameters that took the Monacoin mainnet set through
  \<^verbatim>\<open>applyMonacoinParams\<close>, and true for the Bitcoin testnet set and for parameters that
  took the Monacoin testnet set.
\<close>

theorem isTestnet_iff_testnet_magic:
  "(isTestnet E params
      \<longleftrightarrow> Net (Params params) = bitcoinWire_TestNet3 E
          \<or> Net (Params params) = bitcoinWire_BitcoinNet (monacoinWire_TestNet4 E))
   \<and> (tables_carry_magics E \<and> testnet_magics_apart E \<longrightarrow>
         \<not> isTestnet E (bitcoinMainNetParams E)
         \<and> \<not> isTestnet E (bitcoinSimNetParams E)
         \<and> \<not> isTestnet E (regTestNetParams E)
         \<and> \<not> isTestnet E (applyMonacoinParams base (monacoinMainNetParams E))
         \<and> isTestnet E (bitcoinTestNetParams E)
         \<and> isTestnet E (applyMonacoinParams base (monacoinTestNetParams E)))"
proof -
  have general: "isTestnet E p
      \<longleftrightarrow> Net (Params p) = bitcoinWire_TestNet3 E
          \<or> Net (Params p) = bitcoinWire_BitcoinNet (monacoinWire_TestNet4 E)" for p
    by (simp add: isTestnet_def)
  have sets: "\<not> isTestnet E (bitcoinMainNetParams E)
         \<and> \<not> isTestnet E (bitcoinSimNetParams E)
         \<and> \<not> isTestnet E (regTestNetParams E)
         \<and> \<not> isTestnet E (applyMonacoinParams base (monacoinMainNetParams E))
         \<and> isTestnet E (bitcoinTestNetParams E)
         \<and> isTestnet E (applyMonacoinParams base (monacoinTestNetParams E))"
    if carry: "tables_carry_magics E" and apart: "testnet_magics_apart E"
  proof -
    have main: "\<not> isTestnet E (bitcoinMainNetParams E)"
      using carry apart
      by (simp add: general bitcoinMainNetParams_def tables_carry_magics_def
          testnet_magics_apart_def)
    have sim: "\<not> isTestnet E (bitcoinSimNetParams E)"
      using carry apart
      by (simp add: general bitcoinSimNetParams_def tables_carry_magics_def
          testnet_magics_apart_def)
    have reg: "\<not> isTestnet E (regTestNetParams E)"
      using carry apart
      by (simp add: general regTestNetParams_def tables_carry_magics_def
          testnet_magics_apart_def)
    have mona: "\<not> isTestnet E (applyMonacoinParams base (monacoinMainNetParams E))"
      using carry apart
      by (simp add: general applyMonacoinParams_def monacoinMainNetParams_def
          tables_carry_magics_def testnet_magics_apart_def)
    have test3: "isTestnet E (bitcoinTestNetParams E)"
      using carry
      by (simp add: general bitcoinTestNetParams_def tables_carry_magics_def)
    have test4: "isTestnet E (applyMonacoinParams base (monacoinTestNetParams E))"
      using carry
      by (simp add: general applyMonacoinParams_def monacoinTestNetParams_def
          tables_carry_magics_def)
    from main sim reg mona test3 test4 show ?thesis by blast
  qed
  from general sets show ?thesis by blast
qed

theorem isTestnet_upstream_witness:
  "tables_carry_magics upstream \<and> testnet_magics_apart upstream
   \<and> \<not> isTestnet upstream (bitcoinMainNetParams upstream)
   \<and> \<not> isTestnet upstream (bitcoinSimNetParams upstream)
   \<and> \<not> isTestnet upstream (regTestNetParams upstream)
   \<and> \<not> isTestnet upstream
         (applyMonacoinParams (bitcoinMainNetParams upstream) (monacoinMainNetParams upstream))
   \<and> isTestnet upstream (bitcoinTestNetParams upstream)
   \<and> isTestnet upstream
         (applyMonacoinParams (bitcoinTestNetParams upstream) (monacoinTestNetParams upstream))"
  using isTestnet_iff_testnet_magic
          [of upstream "bitcoinTestNetParams upstream" "bitcoinMainNetParams upstream"]
        isTestnet_iff_testnet_magic
          [of upstream "bitcoinTestNetParams upstream" "bitcoinTestNetParams upstream"]
        upstream_tables_carry_magics upstream_testnet_magics_apart
  by blast

section \<open>The outgoing HTLC on the local commitment, step by step\<close>

lemma createOutgoingRes_local:
  "createOutgoingRes txHash True =
     \<lparr>Expiry = 125, SignedTimeoutTx = Some (theTimeoutTx txHash), CsvDelay = 2,
      ClaimOutpoint = \<lparr>Hash = 0, Index = 0\<rparr>,
      SweepSignDesc = \<lparr>PubKey = [], SingleTweak = [], WitnessScript = [],
                        Output = \<lparr>Value = 10000, PkScript = []\<rparr>, HashType = 0\<rparr>\<rparr>"
  by (simp add: createOutgoingRes_def theTimeoutTx_def zeroMsgTx_def zeroTxOut_def
      zeroSignDescriptor_def)

lemma createNurseryTestContext_fresh:
  "createNurseryTestContext cfg = newUtxoNursery newNurseryStore [] []"
  by (simp add: createNurseryTestContext_def Start_def newUtxoNursery_def newNurseryStore_def
      LastGraduatedHeight_def FetchPreschools_def FetchClass_def filedBelowOrEqual_def
      HeightsBelowOrEqual_def List.map_filter_def)

lemma step_incubate:
  "incubateTestOutput (testConfig txHash est static weight) True
       (newUtxoNursery newNurseryStore [] [])
     = newUtxoNursery (store1 txHash) [] []"
  by (simp add: incubateTestOutput_def testConfig_def createOutgoingRes_local
      IncubateOutputs_def outgoingKid_def outgoingBaby_def List.map_filter_def
      makeKidOutput_def newUtxoNursery_def newNurseryStore_def Incubate_def incubateBaby_def
      lookupOutput_def chanOutputs_def testChanPoint_def fileAt_def putOutput_def filedAt_def
      store1_def theBaby_def theKid_def htlcOutpoint_def Let_def)

lemma FetchClass_at_expiry: "FetchClass 125 (store1 txHash) = (None, [], [theBaby txHash])"
  by (simp add: FetchClass_def store1_def filedBelowOrEqual_def HeightsBelowOrEqual_def
      filedAt_def List.map_filter_def kidAt_def babyAt_def lookupOutput_def chanOutputs_def)

lemma step_epoch_125:
  "notifyEpoch (testConfig txHash est static weight) 125 (newUtxoNursery (store1 txHash) [] [])
     = state2 txHash"
  apply (simp add: notifyEpoch_def onEpoch_def newUtxoNursery_def FetchClass_at_expiry
      broadcastExpired_def sweepCribOutput_def broadcastTimeoutTx_def PublishTransaction_def
      RegisterConfirmationsNtfn_def graduateClass_def rebroadcastAt_def babyKey_def
      GraduateHeight_def Let_def)
  apply (simp add: state2_def testConfig_def theBaby_def theKid_def testChanPoint_def
      htlcOutpoint_def store1_def)
  done

lemma receive_timeout_tx:
  "receiveTx (state2 txHash) = Inr (theTimeoutTx txHash, (state2 txHash)\<lparr>published := []\<rparr>)"
  by (simp add: receiveTx_def state2_def)

lemma CribToKinder_at_126:
  "CribToKinder ((theBaby txHash)\<lparr>kidOutput := (theKid 0)\<lparr>confHeight := 126\<rparr>\<rparr>)
       ((store1 txHash)\<lparr>lastGraduatedHeight := 125\<rparr>)
     = Inr store3"
  by (simp add: CribToKinder_def theBaby_def theKid_def store1_def stageOf_def lookupOutput_def
      chanOutputs_def testChanPoint_def htlcOutpoint_def unfileAt_def filedAt_def putOutput_def
      fileAt_def store3_def Let_def)

lemma step_confirm_timeout:
  "confirmTx (txHash (theTimeoutTx txHash)) 126 ((state2 txHash)\<lparr>published := []\<rparr>)
     = Inr state3"
  apply (simp add: confirmTx_def state2_def i_CribToKinder_def)
  apply (simp add: CribToKinder_at_126 [unfolded theBaby_def, simplified] theBaby_def state3_def)
  done

lemma FetchClass_at_maturity: "FetchClass 128 store3 = (None, [theKid 126], [])"
  by (simp add: FetchClass_def store3_def filedBelowOrEqual_def HeightsBelowOrEqual_def
      filedAt_def List.map_filter_def kidAt_def babyAt_def lookupOutput_def chanOutputs_def)

lemma buildSweepTx_of_the_kid:
  "buildSweepTx (testConfig txHash est static weight) [theKid 126]
     = Some (theSweepTx (testConfig txHash est static weight))"
  by (simp add: buildSweepTx_def unsignedSweepTx_def theSweepTx_def testConfig_def
      nurseryMockSigner_SignOutputRaw_def theKid_def htlcOutpoint_def)

lemma step_epoch_128:
  "notifyEpoch (testConfig txHash est static weight) 128 state3
     = state4 (testConfig txHash est static weight)"
  apply (simp add: notifyEpoch_def onEpoch_def state3_def FetchClass_at_maturity
      buildSweepTx_of_the_kid graduateClass_def publishSweep_def PublishTransaction_def
      RegisterConfirmationsNtfn_def Let_def)
  apply (simp add: FinalizeKinder_def GraduateHeight_def state4_def store4_def store3_def)
  done

lemma receive_sweep_tx:
  "receiveTx (state4 cfg) = Inr (theSweepTx cfg, (state4 cfg)\<lparr>published := []\<rparr>)"
  by (simp add: receiveTx_def state4_def)

lemma graduateFiled_at_maturity: "graduateFiled 128 (store4 cfg) = store4graduated cfg"
  by (simp add: graduateFiled_def HeightsBelowOrEqual_def store4_def graduateFiledAt_def
      filedAt_def graduateOutput_def kidAt_def lookupOutput_def chanOutputs_def putOutput_def
      unfileAt_def testChanPoint_def htlcOutpoint_def store4graduated_def)

lemma step_confirm_sweep:
  "confirmTx (TxHash cfg (theSweepTx cfg)) 129 ((state4 cfg)\<lparr>published := []\<rparr>) = Inr state5"
  apply (simp add: confirmTx_def state4_def i_GraduateKinder_def GraduateKinder_def
      graduateFiled_at_maturity)
  apply (simp add: pruneChannels_def allGraduated_def state5_def store4_def store4graduated_def)
  done

lemma outgoingHtlcOnLocal_trace:
  "outgoingHtlcOnLocal (testConfig txHash est static weight) =
     Inr \<lparr>incubated = newUtxoNursery (store1 txHash) [] [], atExpiry = state2 txHash,
          firstTx = theTimeoutTx txHash, promoted = state3,
          atMaturity = state4 (testConfig txHash est static weight),
          sweepTx = theSweepTx (testConfig txHash est static weight), graduated = state5\<rparr>"
proof -
  have h: "TxHash (testConfig txHash est static weight) = txHash"
    by (simp add: testConfig_def)
  show ?thesis
    unfolding outgoingHtlcOnLocal_def createNurseryTestContext_fresh step_incubate
      step_epoch_125 Let_def
    using step_confirm_sweep [of "testConfig txHash est static weight"]
    by (simp add: receive_timeout_tx receive_sweep_tx h createOutgoingRes_local
        step_confirm_timeout step_epoch_128)
qed

text \<open>
  C1. An outgoing HTLC on the local commitment with CLTV expiry 125, CSV delay 2 and
  amount 10000 is incubated in CRIB and nothing is published. The block epoch at height
  125 makes the nursery publish the pre-signed timeout transaction, the output staying in
  CRIB. The confirmation of the timeout transaction at height 126 moves the output to
  KINDERGARTEN. The block epoch at height 128 makes the nursery publish a sweep
  transaction whose only input is the output. The report shows one HTLC with limbo
  balance 10000, in stage 1 after the intake and in stage 2 once the sweep is published,
  as the test asserts. The sweep is finalized for height 128 in the store. The
  confirmation of the sweep at height 129 makes the store of the run the result of
  \<^verbatim>\<open>GraduateKinder(128)\<close> on the store the sweep was published from: the output is moved to
  GRADUATED, the finalized sweep is removed and the channel, whose last output has now
  graduated, is pruned, so that the record of the output is gone with it. The report for
  the channel is \<^verbatim>\<open>ErrContractNotFound\<close>, no channel is left and the height index is empty.
\<close>

theorem outgoing_htlc_on_local_commit_scenario:
  "\<exists>t b signedTimeoutTx r1 r2.
     outgoingHtlcOnLocal (testConfig txHash est static weight) = Inr t
     \<and> SignedTimeoutTx (createOutgoingRes txHash True) = Some signedTimeoutTx
     \<and> lookupOutput (store (incubated t)) testChanPoint
           (ClaimOutpoint (createOutgoingRes txHash True)) = Some (CRIB, Baby b)
     \<and> expiry b = 125 \<and> blocksToMaturity (kidOutput b) = 2 \<and> amt (kidOutput b) = 10000
     \<and> timeoutTx b = signedTimeoutTx
     \<and> published (incubated t) = []
     \<and> NurseryReport testChanPoint (incubated t) = Inr r1
     \<and> length (htlcs r1) = 1 \<and> r_stage (hd (htlcs r1)) = 1 \<and> limboBalance r1 = 10000
     \<and> published (atExpiry t) = [signedTimeoutTx]
     \<and> firstTx t = signedTimeoutTx
     \<and> stageOf (store (atExpiry t)) testChanPoint (outpoint (kidOutput b)) = Some CRIB
     \<and> CribToKinder (b\<lparr>kidOutput := (kidOutput b)\<lparr>confHeight := 126\<rparr>\<rparr>) (store (atExpiry t))
           = Inr (store (promoted t))
     \<and> lookupOutput (store (promoted t)) testChanPoint (outpoint (kidOutput b))
           = Some (KNDR, Kid ((kidOutput b)\<lparr>confHeight := 126\<rparr>))
     \<and> stageOf (store (promoted t)) testChanPoint (outpoint (kidOutput b)) = Some KNDR
     \<and> filedAt (store (promoted t)) 128 = [(testChanPoint, outpoint (kidOutput b))]
     \<and> signals (promoted t) = [cribToKinderChan]
     \<and> published (promoted t) = []
     \<and> published (atMaturity t) = [sweepTx t]
     \<and> map PreviousOutPoint (TxIn (sweepTx t)) = [outpoint (kidOutput b)]
     \<and> map_of (finalizedTxs (store (atMaturity t))) 128 = Some (sweepTx t)
     \<and> stageOf (store (atMaturity t)) testChanPoint (outpoint (kidOutput b)) = Some KNDR
     \<and> NurseryReport testChanPoint (atMaturity t) = Inr r2
     \<and> length (htlcs r2) = 1 \<and> r_stage (hd (htlcs r2)) = 2 \<and> limboBalance r2 = 10000
     \<and> store (graduated t) = GraduateKinder 128 (store (atMaturity t))
     \<and> store (graduated t)
           = pruneChannels
               ((graduateFiled 128 (store (atMaturity t)))
                  \<lparr>finalizedTxs := AList.delete 128 (finalizedTxs (store (atMaturity t)))\<rparr>)
     \<and> lookupOutput (graduateFiled 128 (store (atMaturity t))) testChanPoint
           (outpoint (kidOutput b)) = Some (GRAD, Kid ((kidOutput b)\<lparr>confHeight := 126\<rparr>))
     \<and> stageOf (graduateFiled 128 (store (atMaturity t))) testChanPoint
           (outpoint (kidOutput b)) = Some GRAD
     \<and> stageOf (store (graduated t)) testChanPoint (outpoint (kidOutput b)) = None
     \<and> finalizedTxs (store (graduated t)) = []
     \<and> signals (graduated t) = [cribToKinderChan, graduateKinderChan]
     \<and> NurseryReport testChanPoint (graduated t) = Inl ErrContractNotFound
     \<and> ListChannels (store (graduated t)) = []
     \<and> HeightsBelowOrEqual 0xFFFFFFFF (store (graduated t)) = []"
proof -
  let ?cfg = "testConfig txHash est static weight"
  let ?t = "\<lparr>incubated = newUtxoNursery (store1 txHash) [] [], atExpiry = state2 txHash,
             firstTx = theTimeoutTx txHash, promoted = state3, atMaturity = state4 ?cfg,
             sweepTx = theSweepTx ?cfg, graduated = state5\<rparr>"
  let ?b = "theBaby txHash"
  let ?tx = "theTimeoutTx txHash"
  have cp: "ClaimOutpoint (createOutgoingRes txHash True) = htlcOutpoint"
    by (simp add: createOutgoingRes_local htlcOutpoint_def)
  have op: "outpoint (kidOutput ?b) = htlcOutpoint"
    by (simp add: theBaby_def theKid_def htlcOutpoint_def)
  have f1: "outgoingHtlcOnLocal ?cfg = Inr ?t"
    by (rule outgoingHtlcOnLocal_trace)
  have f2: "SignedTimeoutTx (createOutgoingRes txHash True) = Some ?tx"
    by (simp add: createOutgoingRes_local)
  have f3: "lookupOutput (store (incubated ?t)) testChanPoint
              (ClaimOutpoint (createOutgoingRes txHash True)) = Some (CRIB, Baby ?b)"
    unfolding cp
    by (simp add: newUtxoNursery_def store1_def lookupOutput_def chanOutputs_def)
  have f4: "expiry ?b = 125" "blocksToMaturity (kidOutput ?b) = 2" "amt (kidOutput ?b) = 10000"
    "timeoutTx ?b = ?tx"
    by (simp_all add: theBaby_def theKid_def)
  let ?r1 = "\<lparr>limboBalance = 10000, recoveredBalance = 0,
              htlcs = [\<lparr>r_outpoint = htlcOutpoint, r_amount = 10000, r_stage = 1,
                        r_maturityHeight = 125\<rparr>]\<rparr>"
  let ?r2 = "\<lparr>limboBalance = 10000, recoveredBalance = 0,
              htlcs = [\<lparr>r_outpoint = htlcOutpoint, r_amount = 10000, r_stage = 2,
                        r_maturityHeight = 128\<rparr>]\<rparr>"
  have g1: "NurseryReport testChanPoint (incubated ?t) = Inr ?r1"
    by (simp add: newUtxoNursery_def store1_def NurseryReport_def ForChanOutputs_def
        List.map_filter_def htlcReport_def theBaby_def theKid_def)
  have g2: "NurseryReport testChanPoint (atMaturity ?t) = Inr ?r2"
    by (simp add: state4_def store4_def NurseryReport_def ForChanOutputs_def
        List.map_filter_def htlcReport_def theKid_def)
  have g3: "length (htlcs ?r1) = 1" "r_stage (hd (htlcs ?r1)) = 1" "limboBalance ?r1 = 10000"
    "length (htlcs ?r2) = 1" "r_stage (hd (htlcs ?r2)) = 2" "limboBalance ?r2 = 10000"
    by simp_all
  have f5: "published (incubated ?t) = []" "published (atExpiry ?t) = [?tx]" "firstTx ?t = ?tx"
    by (simp_all add: newUtxoNursery_def state2_def)
  have f6: "stageOf (store (atExpiry ?t)) testChanPoint (outpoint (kidOutput ?b)) = Some CRIB"
    unfolding op
    by (simp add: state2_def store1_def stageOf_def lookupOutput_def chanOutputs_def)
  have f7: "stageOf (store (promoted ?t)) testChanPoint (outpoint (kidOutput ?b)) = Some KNDR"
    unfolding op
    by (simp add: state3_def store3_def stageOf_def lookupOutput_def chanOutputs_def)
  have f8: "signals (promoted ?t) = [cribToKinderChan]" "published (promoted ?t) = []"
    "published (atMaturity ?t) = [sweepTx ?t]"
    by (simp_all add: state3_def state4_def)
  have f9: "map PreviousOutPoint (TxIn (sweepTx ?t)) = [outpoint (kidOutput ?b)]"
    unfolding op
    by (simp add: theSweepTx_def)
  have f10: "stageOf (store (atMaturity ?t)) testChanPoint (outpoint (kidOutput ?b)) = Some KNDR"
    unfolding op
    by (simp add: state4_def store4_def stageOf_def lookupOutput_def chanOutputs_def)
  have st4: "store (atMaturity ?t) = store4 ?cfg"
    by (simp add: state4_def)
  have f11: "stageOf (graduateFiled 128 (store (atMaturity ?t))) testChanPoint
               (outpoint (kidOutput ?b)) = Some GRAD"
    unfolding op st4 graduateFiled_at_maturity
    by (simp add: store4graduated_def stageOf_def lookupOutput_def chanOutputs_def)
  have kid126: "(kidOutput ?b)\<lparr>confHeight := 126\<rparr> = theKid 126"
    by (simp add: theBaby_def theKid_def)
  have st2: "store (atExpiry ?t) = (store1 txHash)\<lparr>lastGraduatedHeight := 125\<rparr>"
    by (simp add: state2_def)
  have st3: "store (promoted ?t) = store3"
    by (simp add: state3_def)
  have st5: "store (graduated ?t)
               = \<lparr>channelIndex = [], heightIndex = [], finalizedTxs = [],
                   lastGraduatedHeight = 128, lastFinalizedHeight = 128\<rparr>"
    by (simp add: state5_def)
  have h1: "CribToKinder (?b\<lparr>kidOutput := (kidOutput ?b)\<lparr>confHeight := 126\<rparr>\<rparr>)
              (store (atExpiry ?t)) = Inr (store (promoted ?t))"
    unfolding st2 st3
    using CribToKinder_at_126 [of txHash]
    by (simp add: theBaby_def)
  have h2: "lookupOutput (store (promoted ?t)) testChanPoint (outpoint (kidOutput ?b))
              = Some (KNDR, Kid ((kidOutput ?b)\<lparr>confHeight := 126\<rparr>))"
    unfolding op st3 kid126
    by (simp add: store3_def lookupOutput_def chanOutputs_def)
  have h3: "filedAt (store (promoted ?t)) 128 = [(testChanPoint, outpoint (kidOutput ?b))]"
    unfolding op st3
    by (simp add: store3_def filedAt_def)
  have h4: "map_of (finalizedTxs (store (atMaturity ?t))) 128 = Some (sweepTx ?t)"
    by (simp add: state4_def store4_def)
  have gk: "GraduateKinder 128 (store4 ?cfg)
              = \<lparr>channelIndex = [], heightIndex = [], finalizedTxs = [],
                  lastGraduatedHeight = 128, lastFinalizedHeight = 128\<rparr>"
    unfolding GraduateKinder_def graduateFiled_at_maturity
    by (simp add: pruneChannels_def allGraduated_def store4_def store4graduated_def)
  have h5: "store (graduated ?t) = GraduateKinder 128 (store (atMaturity ?t))"
    unfolding st4 st5 gk
    by (rule refl)
  have h6: "store (graduated ?t)
              = pruneChannels
                  ((graduateFiled 128 (store (atMaturity ?t)))
                     \<lparr>finalizedTxs := AList.delete 128 (finalizedTxs (store (atMaturity ?t)))\<rparr>)"
    using h5 unfolding GraduateKinder_def
    by simp
  have h7: "lookupOutput (graduateFiled 128 (store (atMaturity ?t))) testChanPoint
              (outpoint (kidOutput ?b)) = Some (GRAD, Kid ((kidOutput ?b)\<lparr>confHeight := 126\<rparr>))"
    unfolding op st4 graduateFiled_at_maturity kid126
    by (simp add: store4graduated_def lookupOutput_def chanOutputs_def)
  have h8: "stageOf (store (graduated ?t)) testChanPoint (outpoint (kidOutput ?b)) = None"
    unfolding st5
    by (simp add: stageOf_def lookupOutput_def chanOutputs_def)
  have h9: "finalizedTxs (store (graduated ?t)) = []"
    unfolding st5
    by simp
  have f12: "signals (graduated ?t) = [cribToKinderChan, graduateKinderChan]"
    by (simp add: state5_def)
  have f13: "NurseryReport testChanPoint (graduated ?t) = Inl ErrContractNotFound"
    by (simp add: state5_def NurseryReport_def ForChanOutputs_def)
  have f14: "ListChannels (store (graduated ?t)) = []"
    by (simp add: state5_def ListChannels_def)
  have f15: "HeightsBelowOrEqual 0xFFFFFFFF (store (graduated ?t)) = []"
    by (simp add: state5_def HeightsBelowOrEqual_def)
  show ?thesis
    apply (rule exI [where x = "?t"])
    apply (rule exI [where x = "?b"])
    apply (rule exI [where x = "?tx"])
    apply (rule exI [where x = "?r1"])
    apply (rule exI [where x = "?r2"])
    apply (intro conjI)
    apply (fact f1 f2 f3 f4 f5 f6 f7 f8 f9 f10 f11 f12 f13 f14 f15 g1 g2 g3
        h1 h2 h3 h4 h5 h6 h7 h8 h9)+
    done
qed


end
